theory Spec2Isabelle
  imports Main "HOL-Library.Word"
begin

section \<open>Data model of \<open>src/App.tsx\<close>\<close>

text \<open>
  A JavaScript string is a sequence of UTF-16 code units: \<open>length\<close> counts code units and
  \<open>slice\<close> cuts between them. Texts are therefore lists of 16-bit words.
\<close>

type_synonym jschar = "16 word"
type_synonym jsstring = "jschar list"

definition js :: "string \<Rightarrow> jsstring" where
  \<comment> \<open>an ASCII literal of the source as code units\<close>
  "js s = map (\<lambda>c. of_nat (of_char c)) s"

text \<open>\<open>interface Message { text: string; isUser: boolean }\<close>\<close>

record message =
  text_m :: jsstring
  isUser :: bool

text \<open>\<open>interface Conversation { id: number; title: string; messages: Message[] }\<close>\<close>

record conversation =
  id_c :: nat
  title :: jsstring
  messages :: "message list"

text \<open>
  The four \<open>useState\<close> cells of the component. \<open>currentConversation\<close> holds a
  conversation value (a snapshot), not an identifier.
\<close>

record app_state =
  conversations :: "conversation list"
  currentConversation :: "conversation option"
  inputText :: jsstring
  isListening :: bool

definition initial_state :: app_state where
  "initial_state =
     \<lparr>conversations = [], currentConversation = None, inputText = [], isListening = False\<rparr>"

section \<open>String helpers\<close>

text \<open>
  \<open>String.prototype.trim\<close> strips the ECMAScript WhiteSpace and LineTerminator code
  points from both ends; all of them are single code units.
\<close>

definition whiteSpaceUnits :: "jschar list" where
  "whiteSpaceUnits =
     [0x0009, 0x000A, 0x000B, 0x000C, 0x000D, 0x0020, 0x00A0, 0x1680,
      0x2000, 0x2001, 0x2002, 0x2003, 0x2004, 0x2005, 0x2006, 0x2007, 0x2008, 0x2009, 0x200A,
      0x2028, 0x2029, 0x202F, 0x205F, 0x3000, 0xFEFF]"

definition isWhiteSpace :: "jschar \<Rightarrow> bool" where
  "isWhiteSpace c = (c \<in> set whiteSpaceUnits)"

definition trim :: "jsstring \<Rightarrow> jsstring" where
  "trim s = rev (dropWhile isWhiteSpace (rev (dropWhile isWhiteSpace s)))"

definition truthy :: "jsstring \<Rightarrow> bool" where
  \<comment> \<open>a string in a condition: true unless it is empty\<close>
  "truthy s = (s \<noteq> [])"

definition slice :: "nat \<Rightarrow> nat \<Rightarrow> jsstring \<Rightarrow> jsstring" where
  \<comment> \<open>\<open>s.slice(a, b)\<close> for non-negative \<open>a\<close>, \<open>b\<close>\<close>
  "slice a b s = drop a (take b s)"

section \<open>The send pipeline\<close>

text \<open>
  What the callback passed to \<open>setTimeout\<close> closes over: the constants of the render in
  which \<open>handleSendMessage\<close> ran. They are the values \<^emph>\<open>before\<close> the state updates of
  that call, because \<open>setX\<close> does not change the constants of the running render.
\<close>

record reply_closure =
  cap_inputText :: jsstring
  cap_newMessage :: message
  cap_currentConversation :: "conversation option"
  cap_conversations :: "conversation list"

definition replaceById :: "conversation \<Rightarrow> conversation \<Rightarrow> conversation list \<Rightarrow> conversation list" where
  \<comment> \<open>\<open>convs.map(conv => conv.id === cur.id ? updated : conv)\<close>\<close>
  "replaceById cur updated convs = map (\<lambda>conv. if id_c conv = id_c cur then updated else conv) convs"

definition makeTitle :: "jsstring \<Rightarrow> jsstring" where
  \<comment> \<open>\<open>inputText.slice(0, 30) + (inputText.length > 30 ? '...' : '')\<close>\<close>
  "makeTitle t = slice 0 30 t @ (if length t > 30 then js ''...'' else js '''')"

text \<open>
  \<open>handleSendMessage\<close> (lines 57-95). \<open>now\<close> is the value of \<open>Date.now()\<close>. The result is
  the state after the call and the callback handed to \<open>setTimeout(_, 1000)\<close>, if any.
\<close>

definition handleSendMessage :: "nat \<Rightarrow> app_state \<Rightarrow> app_state \<times> reply_closure option" where
  "handleSendMessage now s =
     (if truthy (trim (inputText s)) then
        let newMessage = \<lparr>text_m = inputText s, isUser = True\<rparr>;
            s1 = (case currentConversation s of
                    Some cur \<Rightarrow>
                      let updatedConversation = cur\<lparr>messages := messages cur @ [newMessage]\<rparr>
                      in s\<lparr>currentConversation := Some updatedConversation,
                           conversations := replaceById cur updatedConversation (conversations s)\<rparr>
                  | None \<Rightarrow>
                      let newConversation =
                            \<lparr>id_c = now, title = makeTitle (inputText s), messages = [newMessage]\<rparr>
                      in s\<lparr>currentConversation := Some newConversation,
                           conversations := conversations s @ [newConversation]\<rparr>)
        in (s1\<lparr>inputText := js ''''\<rparr>,
            Some \<lparr>cap_inputText = inputText s, cap_newMessage = newMessage,
                  cap_currentConversation = currentConversation s,
                  cap_conversations = conversations s\<rparr>)
      else (s, None))"

definition botResponse :: "reply_closure \<Rightarrow> message" where
  \<comment> \<open>\<open>{ text: `You said: ${inputText}`, isUser: false }\<close>\<close>
  "botResponse k = \<lparr>text_m = js ''You said: '' @ cap_inputText k, isUser = False\<rparr>"

text \<open>The timer callback (lines 81-93), run on the state it finds when it fires.\<close>

definition echoReply :: "reply_closure \<Rightarrow> app_state \<Rightarrow> app_state" where
  "echoReply k s =
     (case cap_currentConversation k of
        Some cur \<Rightarrow>
          let updatedConversation =
                cur\<lparr>messages := messages cur @ [cap_newMessage k, botResponse k]\<rparr>
          in s\<lparr>currentConversation := Some updatedConversation,
               conversations := replaceById cur updatedConversation (cap_conversations k)\<rparr>
      | None \<Rightarrow> s)"

section \<open>Conversation store\<close>

definition startNewConversation :: "app_state \<Rightarrow> app_state" where
  "startNewConversation s = s\<lparr>currentConversation := None\<rparr>"

definition selectConversation :: "conversation \<Rightarrow> app_state \<Rightarrow> app_state" where
  "selectConversation conversation s = s\<lparr>currentConversation := Some conversation\<rparr>"

section \<open>Speech input\<close>

text \<open>
  \<open>event.results\<close> of a \<open>SpeechRecognitionEvent\<close>: the results of the session so far, each
  final or interim and each carrying its alternatives, best first.
\<close>

record speechRecognitionAlternative =
  transcript :: jsstring

record speechRecognitionResult =
  isFinal :: bool
  alternatives :: "speechRecognitionAlternative list"

datatype js_error = TypeError

definition firstTranscript :: "speechRecognitionResult \<Rightarrow> js_error + jsstring" where
  \<comment> \<open>\<open>result[0].transcript\<close>; reading a property of \<open>undefined\<close> throws\<close>
  "firstTranscript r =
     (case alternatives r of [] \<Rightarrow> Inl TypeError | a # _ \<Rightarrow> Inr (transcript a))"

fun mapTranscripts :: "speechRecognitionResult list \<Rightarrow> js_error + jsstring list" where
  "mapTranscripts [] = Inr []"
| "mapTranscripts (r # rs) =
     (case firstTranscript r of
        Inl e \<Rightarrow> Inl e
      | Inr t \<Rightarrow> (case mapTranscripts rs of Inl e \<Rightarrow> Inl e | Inr ts \<Rightarrow> Inr (t # ts)))"

definition join :: "jsstring list \<Rightarrow> jsstring" where
  \<comment> \<open>\<open>.join('')\<close>\<close>
  "join ts = concat ts"

text \<open>\<open>recognition.onresult\<close> (lines 31-36); a throw leaves the state as it was.\<close>

definition onresult :: "speechRecognitionResult list \<Rightarrow> app_state \<Rightarrow> js_error + app_state" where
  "onresult results s =
     (case mapTranscripts results of
        Inl e \<Rightarrow> Inl e
      | Inr ts \<Rightarrow> Inr (s\<lparr>inputText := join ts\<rparr>))"

definition onerror :: "app_state \<Rightarrow> app_state" where
  "onerror s = s\<lparr>isListening := False\<rparr>"

definition onend :: "app_state \<Rightarrow> app_state" where
  "onend s = s\<lparr>isListening := False\<rparr>"

section \<open>The component in time\<close>

text \<open>
  The component together with a millisecond clock and the queue of pending \<open>setTimeout\<close>
  callbacks, each with the time at which it is due. Every callback is queued at
  \<open>clock + 1000\<close> and the clock never runs backwards, so the queue is in firing order
  (\<open>reachable_queueOrdered\<close> below).
\<close>

record world =
  app :: app_state
  clock :: nat
  timers :: "(nat \<times> reply_closure) list"

definition initial_world :: "nat \<Rightarrow> world" where
  "initial_world t0 = \<lparr>app = initial_state, clock = t0, timers = []\<rparr>"

definition send :: "world \<Rightarrow> world" where
  \<comment> \<open>a submit at the current time: \<open>Date.now()\<close> reads the clock, the callback is due 1000 ms on\<close>
  "send w =
     (case handleSendMessage (clock w) (app w) of
        (s', None) \<Rightarrow> w\<lparr>app := s'\<rparr>
      | (s', Some k) \<Rightarrow> w\<lparr>app := s', timers := timers w @ [(clock w + 1000, k)]\<rparr>)"

definition isDue :: "nat \<Rightarrow> nat \<times> reply_closure \<Rightarrow> bool" where
  "isDue t e = (fst e \<le> t)"

definition notDue :: "nat \<Rightarrow> nat \<times> reply_closure \<Rightarrow> bool" where
  "notDue t e = (t < fst e)"

definition fire :: "app_state \<Rightarrow> nat \<times> reply_closure \<Rightarrow> app_state" where
  "fire s e = echoReply (snd e) s"

definition elapse :: "nat \<Rightarrow> world \<Rightarrow> world" where
  \<comment> \<open>\<open>d\<close> milliseconds pass with no other event: the callbacks that fall due run in order\<close>
  "elapse d w =
     w\<lparr>app := foldl fire (app w) (filter (isDue (clock w + d)) (timers w)),
       clock := clock w + d,
       timers := filter (notDue (clock w + d)) (timers w)\<rparr>"

definition clickConversation :: "nat \<Rightarrow> app_state \<Rightarrow> app_state" where
  \<comment> \<open>a click on the \<open>i\<close>-th sidebar entry (lines 180-191); there is no entry past the list\<close>
  "clickConversation i s =
     (if i < length (conversations s) then selectConversation (conversations s ! i) s else s)"

datatype event =
    Type jsstring
  | Send
  | NewConversation
  | Click nat
  | Elapse nat
  | SpeechResult "speechRecognitionResult list"
  | SpeechError
  | SpeechEnd

fun step :: "event \<Rightarrow> world \<Rightarrow> world" where
  "step (Type t) w = w\<lparr>app := (app w)\<lparr>inputText := t\<rparr>\<rparr>"
| "step Send w = send w"
| "step NewConversation w = w\<lparr>app := startNewConversation (app w)\<rparr>"
| "step (Click i) w = w\<lparr>app := clickConversation i (app w)\<rparr>"
| "step (Elapse d) w = elapse d w"
| "step (SpeechResult rs) w =
     (case onresult rs (app w) of Inl e \<Rightarrow> w | Inr s' \<Rightarrow> w\<lparr>app := s'\<rparr>)"
| "step SpeechError w = w\<lparr>app := onerror (app w)\<rparr>"
| "step SpeechEnd w = w\<lparr>app := onend (app w)\<rparr>"

fun run :: "event list \<Rightarrow> world \<Rightarrow> world" where
  "run [] w = w"
| "run (e # es) w = run es (step e w)"

text \<open>The queue is in firing order: due times ascend and none lies more than 1000 ms ahead.\<close>

definition queueOrdered :: "world \<Rightarrow> bool" where
  "queueOrdered w =
     (sorted (map fst (timers w)) \<and> list_all (\<lambda>e. fst e \<le> clock w + 1000) (timers w))"

section \<open>Titles\<close>

text \<open>
  A conversation whose title is the one \<open>handleSendMessage\<close> computes from the text of its
  first message; the same for a whole state, for what a pending callback captured, and for
  the timed component.
\<close>

definition titleFixed :: "conversation \<Rightarrow> bool" where
  "titleFixed c =
     (case messages c of [] \<Rightarrow> False | m # ms \<Rightarrow> title c = makeTitle (text_m m))"

definition storeTitled :: "app_state \<Rightarrow> bool" where
  "storeTitled s =
     (list_all titleFixed (conversations s)
      \<and> (case currentConversation s of None \<Rightarrow> True | Some c \<Rightarrow> titleFixed c))"

definition closureTitled :: "nat \<times> reply_closure \<Rightarrow> bool" where
  "closureTitled e =
     (list_all titleFixed (cap_conversations (snd e))
      \<and> (case cap_currentConversation (snd e) of None \<Rightarrow> True | Some c \<Rightarrow> titleFixed c))"

definition worldTitled :: "world \<Rightarrow> bool" where
  "worldTitled w = (storeTitled (app w) \<and> list_all closureTitled (timers w))"

section \<open>Between a click on New Conversation and the next send\<close>





section \<open>Invariants of reachable states\<close>




text \<open>The active conversation, when there is one, is an entry of the list.\<close>

definition activeStored :: "conversation list \<Rightarrow> conversation option \<Rightarrow> bool" where
  "activeStored convs cur = (case cur of None \<Rightarrow> True | Some c \<Rightarrow> c \<in> set convs)"

definition closureStored :: "nat \<times> reply_closure \<Rightarrow> bool" where
  "closureStored e = activeStored (cap_conversations (snd e)) (cap_currentConversation (snd e))"

definition worldStored :: "world \<Rightarrow> bool" where
  "worldStored w =
     (activeStored (conversations (app w)) (currentConversation (app w))
      \<and> list_all closureStored (timers w))"

section \<open>Example values\<close>

definition conv_x :: conversation where
  "conv_x = \<lparr>id_c = 1, title = js ''x'', messages = [\<lparr>text_m = js ''x'', isUser = True\<rparr>]\<rparr>"

definition state_x :: "jsstring \<Rightarrow> app_state" where
  "state_x draft =
     \<lparr>conversations = [conv_x], currentConversation = Some conv_x, inputText = draft,
      isListening = False\<rparr>"

definition greeting :: jsstring where
  "greeting = js ''Hello there, how are you today friend''"

definition user :: "string \<Rightarrow> message" where
  "user t = \<lparr>text_m = js t, isUser = True\<rparr>"

definition bot :: "string \<Rightarrow> message" where
  "bot t = \<lparr>text_m = js t, isUser = False\<rparr>"

definition closure_x :: reply_closure where
  \<comment> \<open>what a send of \<open>later\<close> into \<open>state_x\<close> captures\<close>
  "closure_x =
     \<lparr>cap_inputText = js ''later'', cap_newMessage = \<lparr>text_m = js ''later'', isUser = True\<rparr>,
      cap_currentConversation = Some conv_x, cap_conversations = [conv_x]\<rparr>"



section \<open>Helper lemmas\<close>

lemma js_Nil: "js [] = []"
  by (simp add: js_def)

lemmas ws_simps = isWhiteSpace_def whiteSpaceUnits_def js_def

lemma dropWhile_all_iff: "(\<forall>x\<in>set (dropWhile P xs). P x) \<longleftrightarrow> (\<forall>x\<in>set xs. P x)"
  by (induction xs) auto

lemma trim_Nil_iff: "trim s = [] \<longleftrightarrow> (\<forall>c\<in>set s. isWhiteSpace c)"
  by (simp add: trim_def dropWhile_eq_Nil_conv dropWhile_all_iff)

lemma truthy_trim_iff: "truthy (trim s) \<longleftrightarrow> (\<exists>c\<in>set s. \<not> isWhiteSpace c)"
  by (auto simp: truthy_def trim_Nil_iff)

text \<open>Where identifiers are distinct, \<open>replaceById\<close> rewrites one position.\<close>

lemma replaceById_distinct:
  assumes "distinct (map id_c convs)" and "i < length convs"
  shows "replaceById (convs ! i) u convs = convs[i := u]"
proof (rule nth_equalityI)
  show "length (replaceById (convs ! i) u convs) = length (convs[i := u])"
    by (simp add: replaceById_def)
next
  fix j assume "j < length (replaceById (convs ! i) u convs)"
  then have j: "j < length convs" by (simp add: replaceById_def)
  have "id_c (convs ! j) = id_c (convs ! i) \<longleftrightarrow> j = i"
    using assms j by (metis length_map nth_eq_iff_index_eq nth_map)
  then show "replaceById (convs ! i) u convs ! j = convs[i := u] ! j"
    using j by (simp add: replaceById_def nth_list_update)
qed

lemma handleSendMessage_active:
  assumes "truthy (trim (inputText s))" and "currentConversation s = Some cur"
  shows "handleSendMessage now s =
           (s\<lparr>currentConversation := Some (cur\<lparr>messages := messages cur @ [\<lparr>text_m = inputText s, isUser = True\<rparr>]\<rparr>),
              conversations := replaceById cur (cur\<lparr>messages := messages cur @ [\<lparr>text_m = inputText s, isUser = True\<rparr>]\<rparr>) (conversations s),
              inputText := []\<rparr>,
            Some \<lparr>cap_inputText = inputText s, cap_newMessage = \<lparr>text_m = inputText s, isUser = True\<rparr>,
                  cap_currentConversation = Some cur, cap_conversations = conversations s\<rparr>)"
  using assms by (simp add: handleSendMessage_def Let_def js_Nil)

lemma handleSendMessage_fresh:
  assumes "truthy (trim (inputText s))" and "currentConversation s = None"
  shows "handleSendMessage now s =
           (s\<lparr>currentConversation := Some \<lparr>id_c = now, title = makeTitle (inputText s), messages = [\<lparr>text_m = inputText s, isUser = True\<rparr>]\<rparr>,
              conversations := conversations s @ [\<lparr>id_c = now, title = makeTitle (inputText s), messages = [\<lparr>text_m = inputText s, isUser = True\<rparr>]\<rparr>],
              inputText := []\<rparr>,
            Some \<lparr>cap_inputText = inputText s, cap_newMessage = \<lparr>text_m = inputText s, isUser = True\<rparr>,
                  cap_currentConversation = None, cap_conversations = conversations s\<rparr>)"
  using assms by (simp add: handleSendMessage_def Let_def js_Nil)

lemmas send_defs = handleSendMessage_def truthy_def trim_def makeTitle_def slice_def replaceById_def

lemma mapTranscripts_ok:
  "\<forall>r\<in>set rs. alternatives r \<noteq> [] \<Longrightarrow>
     mapTranscripts rs = Inr (map (\<lambda>r. transcript (hd (alternatives r))) rs)"
  by (induction rs) (auto simp: firstTranscript_def split: list.splits)

lemma mapTranscripts_throws:
  "\<exists>r\<in>set rs. alternatives r = [] \<Longrightarrow> mapTranscripts rs = Inl TypeError"
proof (induction rs)
  case Nil
  then show ?case by simp
next
  case (Cons r rs)
  show ?case
  proof (cases "alternatives r = []")
    case True
    then show ?thesis by (simp add: firstTranscript_def)
  next
    case False
    with Cons.prems have "\<exists>r\<in>set rs. alternatives r = []" by auto
    then have "mapTranscripts rs = Inl TypeError" by (rule Cons.IH)
    then show ?thesis by (simp add: firstTranscript_def split: list.splits)
  qed
qed

lemma titleFixed_append:
  "titleFixed c \<Longrightarrow> titleFixed (c\<lparr>messages := messages c @ ms\<rparr>)"
  by (cases "messages c") (simp_all add: titleFixed_def)

lemma titleFixed_replaceById:
  "list_all titleFixed convs \<Longrightarrow> titleFixed u \<Longrightarrow> list_all titleFixed (replaceById cur u convs)"
  by (auto simp: replaceById_def list_all_iff)

lemma titleFixed_new:
  "titleFixed \<lparr>id_c = n, title = makeTitle t, messages = [\<lparr>text_m = t, isUser = b\<rparr>]\<rparr>"
  by (simp add: titleFixed_def)

lemma handleSendMessage_titled:
  assumes "storeTitled s"
  shows "storeTitled (fst (handleSendMessage now s))
         \<and> (case snd (handleSendMessage now s) of None \<Rightarrow> True | Some k \<Rightarrow> closureTitled (d, k))"
proof (cases "truthy (trim (inputText s))")
  case False
  then show ?thesis using assms by (simp add: handleSendMessage_def)
next
  case t: True
  show ?thesis
  proof (cases "currentConversation s")
    case None
    then show ?thesis
      using assms
      by (simp add: handleSendMessage_fresh [OF t None] storeTitled_def closureTitled_def titleFixed_new)
  next
    case (Some cur)
    then show ?thesis
      using assms
      by (simp add: handleSendMessage_active [OF t Some] storeTitled_def closureTitled_def
          titleFixed_append titleFixed_replaceById)
  qed
qed

lemma echoReply_titled:
  assumes "closureTitled e" and "storeTitled s"
  shows "storeTitled (fire s e)"
  using assms
  by (cases "cap_currentConversation (snd e)")
     (simp_all add: fire_def echoReply_def storeTitled_def closureTitled_def Let_def
        titleFixed_append titleFixed_replaceById)

lemma foldl_fire_titled:
  "list_all closureTitled es \<Longrightarrow> storeTitled s \<Longrightarrow> storeTitled (foldl fire s es)"
  by (induction es arbitrary: s) (simp_all add: echoReply_titled)

lemma send_titled: "worldTitled w \<Longrightarrow> worldTitled (send w)"
  using handleSendMessage_titled [of "app w" "clock w" "clock w + 1000"]
  by (auto simp: worldTitled_def send_def split: prod.splits option.splits)

lemma elapse_titled: "worldTitled w \<Longrightarrow> worldTitled (elapse d w)"
  by (simp add: worldTitled_def elapse_def foldl_fire_titled list_all_iff)

lemma step_titled:
  assumes "worldTitled w"
  shows "worldTitled (step e w)"
proof (cases e)
  case Send
  then show ?thesis using assms by (simp add: send_titled)
next
  case (Elapse d)
  then show ?thesis using assms by (simp add: elapse_titled)
next
  case (Click i)
  then show ?thesis
    using assms
    by (auto simp: worldTitled_def storeTitled_def clickConversation_def selectConversation_def
        list_all_length)
next
  case (SpeechResult rs)
  then show ?thesis
    using assms
    by (auto simp: worldTitled_def storeTitled_def onresult_def split: sum.splits)
qed (use assms in \<open>auto simp: worldTitled_def storeTitled_def startNewConversation_def
      onerror_def onend_def\<close>)

lemma run_titled: "worldTitled w \<Longrightarrow> worldTitled (run es w)"
  by (induction es arbitrary: w) (simp_all add: step_titled)

lemma initial_world_titled: "worldTitled (initial_world t0)"
  by (simp add: worldTitled_def storeTitled_def initial_world_def initial_state_def)

lemma makeTitle_length: "length (makeTitle t) \<le> 33"
  by (simp add: makeTitle_def slice_def js_def)

lemma titleFixed_hd:
  "titleFixed c \<Longrightarrow> messages c \<noteq> [] \<and> title c = makeTitle (text_m (hd (messages c)))"
  by (cases "messages c") (simp_all add: titleFixed_def)

lemmas run_defs = send_defs send_def elapse_def isDue_def notDue_def fire_def echoReply_def
  botResponse_def clickConversation_def selectConversation_def startNewConversation_def Let_def

lemma titleFixed_facts:
  "titleFixed c \<Longrightarrow>
     messages c \<noteq> [] \<and> title c = makeTitle (text_m (hd (messages c))) \<and> length (title c) \<le> 33"
  using titleFixed_hd [of c] makeTitle_length [of "text_m (hd (messages c))"] by simp

lemma fresh_send_reply_does_nothing:
  assumes "\<exists>c\<in>set (inputText s). \<not> isWhiteSpace c" and "currentConversation s = None"
  shows "\<exists>k. snd (handleSendMessage now s) = Some k \<and> (\<forall>s2. echoReply k s2 = s2)"
proof -
  have t: "truthy (trim (inputText s))"
    using assms(1) by (simp add: truthy_trim_iff)
  show ?thesis
    by (simp add: handleSendMessage_fresh [OF t assms(2)] echoReply_def)
qed

text \<open>
  With nothing else pending, a send into the active conversation is answered after 1000 ms
  and not before.
\<close>

lemma reply_after_send_into_active:
  assumes "\<exists>c\<in>set (inputText (app w)). \<not> isWhiteSpace c"
    and "currentConversation (app w) = Some cur" and "timers w = []" and "d < 1000"
  shows "app (elapse d (send w)) = app (send w)
         \<and> currentConversation (app (elapse 1000 (send w)))
             = Some (cur\<lparr>messages := messages cur @
                      [\<lparr>text_m = inputText (app w), isUser = True\<rparr>,
                       \<lparr>text_m = js ''You said: '' @ inputText (app w), isUser = False\<rparr>]\<rparr>)"
proof -
  have t: "truthy (trim (inputText (app w)))"
    using assms(1) by (simp add: truthy_trim_iff)
  show ?thesis
    using assms(3,4)
    by (simp add: send_def handleSendMessage_active [OF t assms(2)] elapse_def isDue_def
        notDue_def fire_def echoReply_def botResponse_def Let_def)
qed

text \<open>Every state the component reaches keeps its timer queue in firing order.\<close>

lemma send_queueOrdered: "queueOrdered w \<Longrightarrow> queueOrdered (send w)"
  by (auto simp: queueOrdered_def send_def sorted_append list_all_iff
      split: prod.splits option.splits)

lemma elapse_queueOrdered: "queueOrdered w \<Longrightarrow> queueOrdered (elapse d w)"
  by (auto simp: queueOrdered_def elapse_def list_all_iff sorted_filter intro: trans_le_add1)

lemma step_queueOrdered:
  assumes "queueOrdered w"
  shows "queueOrdered (step e w)"
proof (cases e)
  case Send
  then show ?thesis using assms by (simp add: send_queueOrdered)
next
  case (Elapse d)
  then show ?thesis using assms by (simp add: elapse_queueOrdered)
qed (use assms in \<open>auto simp: queueOrdered_def split: sum.splits\<close>)

lemma run_queueOrdered: "queueOrdered w \<Longrightarrow> queueOrdered (run es w)"
  by (induction es arbitrary: w) (simp_all add: step_queueOrdered)

lemma reachable_queueOrdered: "queueOrdered (run es (initial_world t0))"
  by (rule run_queueOrdered) (simp add: queueOrdered_def initial_world_def)
















text \<open>In every state the component reaches the active conversation is a stored one.\<close>

lemma handleSendMessage_stored:
  assumes "activeStored (conversations s) (currentConversation s)"
  shows "activeStored (conversations (fst (handleSendMessage t s)))
           (currentConversation (fst (handleSendMessage t s)))
         \<and> (case snd (handleSendMessage t s) of None \<Rightarrow> True | Some k \<Rightarrow> closureStored (d, k))"
proof (cases "truthy (trim (inputText s))")
  case False
  then show ?thesis using assms by (simp add: handleSendMessage_def)
next
  case t: True
  show ?thesis
  proof (cases "currentConversation s")
    case None
    then show ?thesis
      by (simp add: handleSendMessage_fresh [OF t None] activeStored_def closureStored_def)
  next
    case (Some cur)
    then show ?thesis
      using assms
      by (force simp: handleSendMessage_active [OF t Some] activeStored_def closureStored_def
          replaceById_def)
  qed
qed

lemma fire_stored:
  assumes "closureStored e" and "activeStored (conversations s) (currentConversation s)"
  shows "activeStored (conversations (fire s e)) (currentConversation (fire s e))"
  using assms
  by (cases "cap_currentConversation (snd e)")
     (force simp: fire_def echoReply_def activeStored_def closureStored_def replaceById_def
        Let_def)+

lemma foldl_fire_stored:
  "list_all closureStored es \<Longrightarrow> activeStored (conversations s) (currentConversation s) \<Longrightarrow>
     activeStored (conversations (foldl fire s es)) (currentConversation (foldl fire s es))"
  by (induction es arbitrary: s) (simp_all add: fire_stored)

lemma send_stored: "worldStored w \<Longrightarrow> worldStored (send w)"
  using handleSendMessage_stored [of "app w" "clock w" "clock w + 1000"]
  by (auto simp: worldStored_def send_def split: prod.splits option.splits)

lemma elapse_stored: "worldStored w \<Longrightarrow> worldStored (elapse d w)"
  by (simp add: worldStored_def elapse_def foldl_fire_stored list_all_iff)

lemma step_stored:
  assumes "worldStored w"
  shows "worldStored (step e w)"
proof (cases e)
  case Send
  then show ?thesis using assms by (simp add: send_stored)
next
  case (Elapse d)
  then show ?thesis using assms by (simp add: elapse_stored)
next
  case (Click i)
  then show ?thesis
    using assms
    by (auto simp: worldStored_def activeStored_def clickConversation_def selectConversation_def)
next
  case (SpeechResult rs)
  then show ?thesis
    using assms
    by (auto simp: worldStored_def activeStored_def onresult_def split: sum.splits option.splits)
qed (use assms in \<open>auto simp: worldStored_def activeStored_def startNewConversation_def
      onerror_def onend_def\<close>)

lemma run_stored: "worldStored w \<Longrightarrow> worldStored (run es w)"
  by (induction es arbitrary: w) (simp_all add: step_stored)

lemma reachable_active_stored:
  "activeStored (conversations (app (run es (initial_world t0))))
     (currentConversation (app (run es (initial_world t0))))"
proof -
  have "worldStored (initial_world t0)"
    by (simp add: worldStored_def activeStored_def initial_world_def initial_state_def)
  then have "worldStored (run es (initial_world t0))" by (rule run_stored)
  then show ?thesis by (simp add: worldStored_def)
qed

section \<open>Empty submissions\<close>

text \<open>
  C5. When the draft is empty or holds only whitespace, \<open>handleSendMessage\<close> returns the
  state it was given (conversation list, active conversation, draft and listening flag) and
  hands no callback to the timer; the function has no failing branch. In the timed
  component the send leaves the whole world, pending timers included, as it was.
\<close>

theorem blank_draft_send_is_noop:
  assumes "\<forall>c\<in>set (inputText (app w)). isWhiteSpace c"
  shows "handleSendMessage now (app w) = (app w, None) \<and> send w = w"
proof -
  have "\<not> truthy (trim (inputText (app w)))"
    using assms by (simp add: truthy_trim_iff)
  then have h: "handleSendMessage t (app w) = (app w, None)" for t
    by (simp add: handleSendMessage_def)
  then show ?thesis by (simp add: send_def)
qed

theorem blank_draft_send_is_noop_witness:
  "list_all isWhiteSpace (js ''  '')
   \<and> handleSendMessage 7 (initial_state\<lparr>inputText := js ''  ''\<rparr>)
       = (initial_state\<lparr>inputText := js ''  ''\<rparr>, None)
   \<and> send \<lparr>app = initial_state\<lparr>inputText := js ''  ''\<rparr>, clock = 7, timers = []\<rparr>
       = \<lparr>app = initial_state\<lparr>inputText := js ''  ''\<rparr>, clock = 7, timers = []\<rparr>"
  using blank_draft_send_is_noop
    [of "\<lparr>app = initial_state\<lparr>inputText := js ''  ''\<rparr>, clock = 7, timers = []\<rparr>" 7]
  by (simp add: ws_simps)

section \<open>Sending a message\<close>

text \<open>
  C2. When the draft holds a character that is not whitespace, \<open>handleSendMessage\<close>
  appends exactly one user message \<open>{text: draft, isUser: true}\<close>: with an active
  conversation, to that conversation, which stays active and replaces the entries of the list
  carrying its id (where the ids are distinct and the active conversation is entry \<open>i\<close>,
  exactly entry \<open>i\<close> changes); with none, in a new conversation holding just that message,
  which becomes active and is appended at the end of the list. Either way the draft becomes
  the empty string.
\<close>

theorem send_appends_one_user_message:
  assumes "\<exists>c\<in>set (inputText s). \<not> isWhiteSpace c"
  shows "(\<forall>cur. currentConversation s = Some cur \<longrightarrow>
            currentConversation (fst (handleSendMessage now s))
              = Some (cur\<lparr>messages := messages cur @ [\<lparr>text_m = inputText s, isUser = True\<rparr>]\<rparr>)
          \<and> conversations (fst (handleSendMessage now s))
              = map (\<lambda>conv. if id_c conv = id_c cur
                             then cur\<lparr>messages := messages cur @ [\<lparr>text_m = inputText s, isUser = True\<rparr>]\<rparr>
                             else conv) (conversations s)
          \<and> (\<forall>i. i < length (conversations s) \<and> conversations s ! i = cur
                   \<and> distinct (map id_c (conversations s)) \<longrightarrow>
                 conversations (fst (handleSendMessage now s))
                   = (conversations s)[i := cur\<lparr>messages := messages cur @ [\<lparr>text_m = inputText s, isUser = True\<rparr>]\<rparr>]))
       \<and> (currentConversation s = None \<longrightarrow>
            currentConversation (fst (handleSendMessage now s))
              = Some \<lparr>id_c = now, title = makeTitle (inputText s),
                      messages = [\<lparr>text_m = inputText s, isUser = True\<rparr>]\<rparr>
          \<and> conversations (fst (handleSendMessage now s))
              = conversations s @ [\<lparr>id_c = now, title = makeTitle (inputText s),
                                     messages = [\<lparr>text_m = inputText s, isUser = True\<rparr>]\<rparr>])
       \<and> inputText (fst (handleSendMessage now s)) = []
       \<and> isListening (fst (handleSendMessage now s)) = isListening s"
proof -
  have t: "truthy (trim (inputText s))"
    using assms by (simp add: truthy_trim_iff)
  show ?thesis
  proof (cases "currentConversation s")
    case None
    then show ?thesis
      by (simp add: handleSendMessage_fresh [OF t None])
  next
    case (Some cur)
    have "conversations (fst (handleSendMessage now s))
            = (conversations s)[i := cur\<lparr>messages := messages cur @ [\<lparr>text_m = inputText s, isUser = True\<rparr>]\<rparr>]"
      if "i < length (conversations s)" "conversations s ! i = cur" "distinct (map id_c (conversations s))" for i
      using replaceById_distinct [OF that(3) that(1)] that(2)
      by (simp add: handleSendMessage_active [OF t Some])
    then show ?thesis
      using Some by (simp add: handleSendMessage_active [OF t Some] replaceById_def)
  qed
qed

theorem send_appends_one_user_message_witness:
  "(\<exists>c\<in>set (js ''Hi''). \<not> isWhiteSpace c)
   \<and> currentConversation (state_x (js ''Hi'')) = Some conv_x
   \<and> conversations (state_x (js ''Hi'')) ! 0 = conv_x
   \<and> distinct (map id_c (conversations (state_x (js ''Hi''))))
   \<and> conversations (fst (handleSendMessage 5 (state_x (js ''Hi''))))
       = (conversations (state_x (js ''Hi'')))
           [0 := conv_x\<lparr>messages := [\<lparr>text_m = js ''x'', isUser = True\<rparr>, \<lparr>text_m = js ''Hi'', isUser = True\<rparr>]\<rparr>]
   \<and> currentConversation (initial_state\<lparr>inputText := js ''Hi''\<rparr>) = None
   \<and> fst (handleSendMessage 5 (state_x (js ''Hi'')))
       = \<lparr>conversations = [conv_x\<lparr>messages := [\<lparr>text_m = js ''x'', isUser = True\<rparr>, \<lparr>text_m = js ''Hi'', isUser = True\<rparr>]\<rparr>],
          currentConversation = Some (conv_x\<lparr>messages := [\<lparr>text_m = js ''x'', isUser = True\<rparr>, \<lparr>text_m = js ''Hi'', isUser = True\<rparr>]\<rparr>),
          inputText = [], isListening = False\<rparr>
   \<and> fst (handleSendMessage 5 (initial_state\<lparr>inputText := js ''Hi''\<rparr>))
       = \<lparr>conversations = [\<lparr>id_c = 5, title = js ''Hi'', messages = [\<lparr>text_m = js ''Hi'', isUser = True\<rparr>]\<rparr>],
          currentConversation = Some \<lparr>id_c = 5, title = js ''Hi'', messages = [\<lparr>text_m = js ''Hi'', isUser = True\<rparr>]\<rparr>,
          inputText = [], isListening = False\<rparr>"
  using send_appends_one_user_message [of "state_x (js ''Hi'')" 5]
    send_appends_one_user_message [of "initial_state\<lparr>inputText := js ''Hi''\<rparr>" 5]
  by (simp add: conv_x_def state_x_def initial_state_def ws_simps send_defs)

text \<open>
  C10. The draft is trimmed only to test it. When it holds a character that is not
  whitespace, the user message appended (the last message of the active conversation) and the
  message the callback captures carry the draft as it is, leading and trailing whitespace
  included, and the reply text is \<open>"You said: "\<close> followed by that same draft; when the send
  went into an existing conversation, the callback stores exactly these two messages after
  the send-time messages.
\<close>

theorem draft_stored_untrimmed:
  assumes "\<exists>c\<in>set (inputText s). \<not> isWhiteSpace c"
  shows "map_option (\<lambda>c. last (messages c)) (currentConversation (fst (handleSendMessage now s)))
           = Some \<lparr>text_m = inputText s, isUser = True\<rparr>
       \<and> map_option cap_newMessage (snd (handleSendMessage now s))
           = Some \<lparr>text_m = inputText s, isUser = True\<rparr>
       \<and> map_option botResponse (snd (handleSendMessage now s))
           = Some \<lparr>text_m = js ''You said: '' @ inputText s, isUser = False\<rparr>
       \<and> (\<forall>cur s2. currentConversation s = Some cur \<longrightarrow>
             map_option (\<lambda>k. currentConversation (echoReply k s2)) (snd (handleSendMessage now s))
               = Some (Some (cur\<lparr>messages := messages cur @
                      [\<lparr>text_m = inputText s, isUser = True\<rparr>,
                       \<lparr>text_m = js ''You said: '' @ inputText s, isUser = False\<rparr>]\<rparr>)))"
proof -
  have t: "truthy (trim (inputText s))"
    using assms by (simp add: truthy_trim_iff)
  show ?thesis
  proof (cases "currentConversation s")
    case None
    then show ?thesis
      by (simp add: handleSendMessage_fresh [OF t None] botResponse_def)
  next
    case (Some cur)
    then show ?thesis
      by (simp add: handleSendMessage_active [OF t Some] botResponse_def echoReply_def Let_def)
  qed
qed

theorem draft_stored_untrimmed_witness:
  "(\<exists>c\<in>set (js '' hi ''). \<not> isWhiteSpace c)
   \<and> trim (js '' hi '') = js ''hi''
   \<and> map_option (\<lambda>c. last (messages c)) (currentConversation (fst (handleSendMessage 5 (state_x (js '' hi '')))))
       = Some \<lparr>text_m = js '' hi '', isUser = True\<rparr>
   \<and> map_option botResponse (snd (handleSendMessage 5 (state_x (js '' hi ''))))
       = Some \<lparr>text_m = js ''You said:  hi '', isUser = False\<rparr>
   \<and> map_option (\<lambda>k. currentConversation (echoReply k initial_state)) (snd (handleSendMessage 5 (state_x (js '' hi ''))))
       = Some (Some (conv_x\<lparr>messages := [\<lparr>text_m = js ''x'', isUser = True\<rparr>,
                 \<lparr>text_m = js '' hi '', isUser = True\<rparr>,
                 \<lparr>text_m = js ''You said:  hi '', isUser = False\<rparr>]\<rparr>))"
  using draft_stored_untrimmed [of "state_x (js '' hi '')" 5]
  by (simp add: conv_x_def state_x_def initial_state_def ws_simps send_defs botResponse_def echoReply_def)

section \<open>Starting a new conversation\<close>




section \<open>Speech results\<close>

text \<open>
  C9. For a result event whose results each carry at least one alternative, \<open>onresult\<close>
  sets the draft to the concatenation of the first transcripts of all results of the event,
  final or interim, whatever the draft was before: the prior draft \<open>prior\<close> does not occur in
  the outcome.
\<close>

theorem onresult_overwrites_draft:
  assumes "\<forall>r\<in>set results. alternatives r \<noteq> []"
  shows "onresult results (s\<lparr>inputText := prior\<rparr>)
           = Inr (s\<lparr>inputText := concat (map (\<lambda>r. transcript (hd (alternatives r))) results)\<rparr>)"
  using assms by (simp add: onresult_def mapTranscripts_ok join_def)

theorem onresult_overwrites_draft_witness:
  "list_all (\<lambda>r. alternatives r \<noteq> [])
      [\<lparr>isFinal = True, alternatives = [\<lparr>transcript = js ''hello ''\<rparr>]\<rparr>,
       \<lparr>isFinal = False, alternatives = [\<lparr>transcript = js ''wor''\<rparr>, \<lparr>transcript = js ''war''\<rparr>]\<rparr>]
   \<and> onresult
        [\<lparr>isFinal = True, alternatives = [\<lparr>transcript = js ''hello ''\<rparr>]\<rparr>,
         \<lparr>isFinal = False, alternatives = [\<lparr>transcript = js ''wor''\<rparr>, \<lparr>transcript = js ''war''\<rparr>]\<rparr>]
        (initial_state\<lparr>inputText := js ''typed''\<rparr>)
       = Inr (initial_state\<lparr>inputText := js ''hello wor''\<rparr>)"
  using onresult_overwrites_draft
    [of "[\<lparr>isFinal = True, alternatives = [\<lparr>transcript = js ''hello ''\<rparr>]\<rparr>,
          \<lparr>isFinal = False, alternatives = [\<lparr>transcript = js ''wor''\<rparr>, \<lparr>transcript = js ''war''\<rparr>]\<rparr>]"
        "js ''typed''" initial_state]
  by (simp add: js_def)

section \<open>Conversation titles\<close>

text \<open>
  C6. A send of a draft that is not blank with no conversation active creates a conversation
  whose title is the first 30 code units of the draft, followed by \<open>...\<close> exactly when the
  draft is longer than 30; a title is never longer than 33. No later operation computes a
  title again: a send into the active conversation and a firing reply keep the title of the
  conversation they extend, and in every state the component reaches from its initial state,
  by any sequence of typing, sends, new-conversation and sidebar clicks, elapsing time and
  speech events, every stored conversation has messages and carries the title computed from
  the text of its first message.
\<close>

theorem title_fixed_at_creation:
  "(currentConversation s = None \<and> (\<exists>c\<in>set (inputText s). \<not> isWhiteSpace c) \<longrightarrow>
      map_option title (currentConversation (fst (handleSendMessage now s)))
        = Some (take 30 (inputText s) @ (if 30 < length (inputText s) then js ''...'' else []))
      \<and> map title (conversations (fst (handleSendMessage now s)))
        = map title (conversations s)
          @ [take 30 (inputText s) @ (if 30 < length (inputText s) then js ''...'' else [])])
   \<and> length (makeTitle t) \<le> 33
   \<and> (currentConversation s = Some cur \<longrightarrow>
        map_option title (currentConversation (fst (handleSendMessage now s))) = Some (title cur))
   \<and> (cap_currentConversation k = Some cur \<longrightarrow>
        map_option title (currentConversation (echoReply k s)) = Some (title cur))
   \<and> list_all (\<lambda>c. messages c \<noteq> [] \<and> title c = makeTitle (text_m (hd (messages c)))
                    \<and> length (title c) \<le> 33)
        (conversations (app (run evs (initial_world t0))))
   \<and> (case currentConversation (app (run evs (initial_world t0))) of
         None \<Rightarrow> True
       | Some c \<Rightarrow> messages c \<noteq> [] \<and> title c = makeTitle (text_m (hd (messages c)))
                    \<and> length (title c) \<le> 33)"
proof -
  have a: "map_option title (currentConversation (fst (handleSendMessage now s)))
             = Some (take 30 (inputText s) @ (if 30 < length (inputText s) then js ''...'' else []))
           \<and> map title (conversations (fst (handleSendMessage now s)))
             = map title (conversations s)
               @ [take 30 (inputText s) @ (if 30 < length (inputText s) then js ''...'' else [])]"
    if n: "currentConversation s = None" and h: "\<exists>c\<in>set (inputText s). \<not> isWhiteSpace c"
  proof -
    have t: "truthy (trim (inputText s))"
      using h by (simp add: truthy_trim_iff)
    show ?thesis
      by (simp add: handleSendMessage_fresh [OF t n] makeTitle_def slice_def js_Nil)
  qed
  have b: "map_option title (currentConversation (fst (handleSendMessage now s))) = Some (title cur)"
    if c: "currentConversation s = Some cur"
  proof (cases "truthy (trim (inputText s))")
    case True
    then show ?thesis by (simp add: handleSendMessage_active [OF True c])
  next
    case False
    then show ?thesis using c by (simp add: handleSendMessage_def)
  qed
  have c: "map_option title (currentConversation (echoReply k s)) = Some (title cur)"
    if "cap_currentConversation k = Some cur"
    using that by (simp add: echoReply_def Let_def)
  have "worldTitled (run evs (initial_world t0))"
    by (rule run_titled [OF initial_world_titled])
  then have inv: "list_all titleFixed (conversations (app (run evs (initial_world t0))))"
    and cur: "case currentConversation (app (run evs (initial_world t0))) of
                None \<Rightarrow> True | Some c \<Rightarrow> titleFixed c"
    by (simp_all add: worldTitled_def storeTitled_def)
  have e: "case currentConversation (app (run evs (initial_world t0))) of
         None \<Rightarrow> True
       | Some c \<Rightarrow> messages c \<noteq> [] \<and> title c = makeTitle (text_m (hd (messages c)))
                    \<and> length (title c) \<le> 33"
    using cur titleFixed_facts by (simp add: makeTitle_length split: option.splits)
  from inv have d: "list_all (\<lambda>c. messages c \<noteq> [] \<and> title c = makeTitle (text_m (hd (messages c)))
                    \<and> length (title c) \<le> 33)
        (conversations (app (run evs (initial_world t0))))"
    using titleFixed_facts by (simp add: list_all_iff makeTitle_length)
  show ?thesis
    using a b c d e makeTitle_length [of t] by blast
qed

theorem title_fixed_at_creation_witness:
  "currentConversation (initial_state\<lparr>inputText := greeting\<rparr>) = None
   \<and> (\<exists>c\<in>set greeting. \<not> isWhiteSpace c)
   \<and> length greeting = 37
   \<and> map_option title (currentConversation (fst (handleSendMessage 5 (initial_state\<lparr>inputText := greeting\<rparr>))))
       = Some (js ''Hello there, how are you today...'')
   \<and> currentConversation (state_x (js ''later'')) = Some conv_x
   \<and> map_option title (currentConversation (fst (handleSendMessage 9 (state_x (js ''later'')))))
       = Some (js ''x'')
   \<and> cap_currentConversation closure_x = Some conv_x
   \<and> map_option title (currentConversation (echoReply closure_x (state_x (js ''later''))))
       = Some (js ''x'')
   \<and> map title (conversations (app (run [Type greeting, Send, Type (js ''more''), Send, Elapse 1000]
                                      (initial_world 0))))
       = [js ''Hello there, how are you today...'']"
  using title_fixed_at_creation
    [of "initial_state\<lparr>inputText := greeting\<rparr>" 5 greeting conv_x closure_x
        "[Type greeting, Send, Type (js ''more''), Send, Elapse 1000]" 0]
    title_fixed_at_creation [of "state_x (js ''later'')" 9 greeting conv_x closure_x "[]" 0]
  by (simp add: greeting_def closure_x_def conv_x_def state_x_def initial_state_def initial_world_def ws_simps run_defs)

section \<open>Selecting a conversation\<close>

text \<open>
  \<open>selectConversation\<close> is given a conversation value, not an id: it looks nothing up and
  changes neither the list, the draft nor the listening flag. Its one caller, the sidebar,
  passes an entry of the list, so a selection always activates a stored conversation.
\<close>

lemma selectConversation_frame:
  "currentConversation (selectConversation c s) = Some c
   \<and> conversations (selectConversation c s) = conversations s
   \<and> inputText (selectConversation c s) = inputText s
   \<and> isListening (selectConversation c s) = isListening s"
  by (simp add: selectConversation_def)

lemma clickConversation_selects_stored:
  "i < length (conversations s) \<Longrightarrow>
     currentConversation (clickConversation i s) = Some (conversations s ! i)
     \<and> conversations s ! i \<in> set (conversations s)"
  by (simp add: selectConversation_def clickConversation_def)

section \<open>The delayed reply\<close>

text \<open>
  C1 fails on the code for a send that creates a conversation. From the empty initial state,
  the greeting of the specification's scenario is typed and sent: the callback is pending at
  999 ms and has run at 1000 ms, yet the conversation still holds the user message alone. The
  callback tests the \<open>currentConversation\<close> of the render that sent, which is \<open>null\<close>.
\<close>

theorem first_send_gets_no_reply:
  "app (run [Type greeting, Send, Elapse 1000] (initial_world 0))
     = \<lparr>conversations =
          [\<lparr>id_c = 0, title = js ''Hello there, how are you today...'',
            messages = [\<lparr>text_m = greeting, isUser = True\<rparr>]\<rparr>],
        currentConversation =
          Some \<lparr>id_c = 0, title = js ''Hello there, how are you today...'',
                messages = [\<lparr>text_m = greeting, isUser = True\<rparr>]\<rparr>,
        inputText = [], isListening = False\<rparr>
   \<and> timers (run [Type greeting, Send, Elapse 999] (initial_world 0))
     = [(1000, \<lparr>cap_inputText = greeting, cap_newMessage = \<lparr>text_m = greeting, isUser = True\<rparr>,
               cap_currentConversation = None, cap_conversations = []\<rparr>)]
   \<and> timers (run [Type greeting, Send, Elapse 1000] (initial_world 0)) = []"
  by (simp add: greeting_def initial_state_def initial_world_def ws_simps run_defs)

text \<open>
  C4 fails on the code. A reply that fires writes back the conversation list captured at send
  time. Three sends, at 0, 200 and 700 ms: when the reply to \<open>a\<close> fires, at 1200 ms, the
  stored message \<open>b\<close> is gone, and when the reply to \<open>b\<close> fires, at 1700 ms, the stored
  reply to \<open>a\<close> is gone.
\<close>

theorem pending_reply_drops_messages:
  "map messages (conversations (app (run
       [Type (js ''x''), Send, Elapse 200, Type (js ''a''), Send, Elapse 500, Type (js ''b''), Send]
       (initial_world 0))))
     = [[user ''x'', user ''a'', user ''b'']]
   \<and> map messages (conversations (app (run
       [Type (js ''x''), Send, Elapse 200, Type (js ''a''), Send, Elapse 500, Type (js ''b''), Send,
        Elapse 500]
       (initial_world 0))))
     = [[user ''x'', user ''a'', bot ''You said: a'']]
   \<and> map messages (conversations (app (run
       [Type (js ''x''), Send, Elapse 200, Type (js ''a''), Send, Elapse 500, Type (js ''b''), Send,
        Elapse 500, Elapse 500]
       (initial_world 0))))
     = [[user ''x'', user ''a'', user ''b'', bot ''You said: b'']]"
  by (simp add: user_def bot_def initial_state_def initial_world_def ws_simps run_defs)




end
